theory Spec2Isabelle
  imports Complex_Main "HOL-Library.Sublist" "HOL-Library.Word"
begin

section \<open>Notebook utilities: a shallow embedding\<close>

text \<open>
  The utility module of the notebook collection (\<^verbatim>\<open>notebook_utils\<close>) offers a file
  download helper, pixel conversions, the colouring of a segmentation map and two
  availability checks.  Each function is translated into a HOL function of the same
  name.  An exception is a value \<open>Inl e\<close> of a sum type, output shown in the notebook is
  a list of strings that is passed in and returned extended, and the file system and the
  network are explicit arguments.
\<close>

subsection \<open>Exceptions and arrays\<close>

text \<open>
  The exceptions that the module raises itself, or runs into, are constructors of their
  own.  \<open>LibraryError\<close> stands for an exception raised inside a call of an external
  library (OpenCV, pathlib, urllib), which the module never catches.
\<close>

datatype error =
    ValueError
  | IndexError
  | UnboundLocalError
  | HTTPError nat string
  | Exception string
  | LibraryError string

definition bind_err :: "error + 'a \<Rightarrow> ('a \<Rightarrow> error + 'b) \<Rightarrow> error + 'b" where
  "bind_err m f = (case m of Inl e \<Rightarrow> Inl e | Inr x \<Rightarrow> f x)"

text \<open>
  A numpy array is its shape together with its elements in row-major order.
\<close>

record 'a ndarray =
  shape :: "nat list"
  data :: "'a list"

subsection \<open>Pixel conversions\<close>






text \<open>
  An image for the colour conversions is an array of shape \<open>(H, W, 3)\<close>: its element
  type, its height and width, and its pixels in row-major order, each with its three
  channels in the order of the array.  Arrays of other shapes are not modelled.
\<close>

datatype dtype = uint8 | int8 | uint16 | int16 | int32 | int64 | float32 | float64

record 'a color_image =
  img_dtype :: dtype
  img_height :: nat
  img_width :: nat
  img_pixels :: "('a \<times> 'a \<times> 'a) list"

text \<open>
  \<^verbatim>\<open>cv2.cvtColor\<close> belongs to OpenCV.  It raises \<open>cv2.error\<close> for an image without
  pixels, and for an element type other than \<open>uint8\<close>, \<open>uint16\<close> and \<open>float32\<close>, the
  depths that its colour conversions accept.  For the two conversion codes used here it
  returns a new image in which the first and the third channel of every pixel are
  exchanged and the second is kept.
\<close>

datatype color_conversion = COLOR_BGR2RGB | COLOR_RGB2BGR

definition cvtColor :: "'a color_image \<Rightarrow> color_conversion \<Rightarrow> error + 'a color_image" where
  "cvtColor src code =
     (if img_height src = 0 \<or> img_width src = 0 then Inl (LibraryError ''cv2.error'')
      else if img_dtype src = uint8 \<or> img_dtype src = uint16 \<or> img_dtype src = float32
      then (case code of
              COLOR_BGR2RGB \<Rightarrow> Inr (src\<lparr>img_pixels := map (\<lambda>(c0, c1, c2). (c2, c1, c0)) (img_pixels src)\<rparr>)
            | COLOR_RGB2BGR \<Rightarrow> Inr (src\<lparr>img_pixels := map (\<lambda>(c0, c1, c2). (c2, c1, c0)) (img_pixels src)\<rparr>))
      else Inl (LibraryError ''cv2.error''))"

text \<open>
  \<^verbatim>\<open>
  def to_rgb(image_data):  return cv2.cvtColor(image_data, cv2.COLOR_BGR2RGB)
  def to_bgr(image_data):  return cv2.cvtColor(image_data, cv2.COLOR_RGB2BGR)
  \<close>
\<close>

definition to_rgb :: "'a color_image \<Rightarrow> error + 'a color_image" where
  "to_rgb image_data = cvtColor image_data COLOR_BGR2RGB"

definition to_bgr :: "'a color_image \<Rightarrow> error + 'a color_image" where
  "to_bgr image_data = cvtColor image_data COLOR_RGB2BGR"


subsection \<open>Checks and alerts\<close>

text \<open>
  The inference-engine runtime is an argument: the list that \<^verbatim>\<open>IECore().available_devices\<close>
  reports and the string that \<^verbatim>\<open>openvino.inference_engine.get_version()\<close> returns.
  What \<^verbatim>\<open>display\<close> shows in the notebook is a list of HTML strings, oldest first.
\<close>

record inference_engine =
  available_devices :: "string list"
  get_version :: string

record NotebookAlert =
  message :: string
  alert_class :: string

definition show_message :: "NotebookAlert \<Rightarrow> string list \<Rightarrow> string list" where
  \<open>show_message self out =
     out @ [''<div class="alert alert-'' @ alert_class self @ ''">'' @ message self]\<close>

definition NotebookAlert_init :: "string \<Rightarrow> string \<Rightarrow> string list \<Rightarrow> NotebookAlert \<times> string list" where
  "NotebookAlert_init msg cls out =
     (let self = \<lparr>message = msg, alert_class = cls\<rparr> in (self, show_message self out))"

text \<open>Python's \<^verbatim>\<open>sep.join(items)\<close>.\<close>

fun join :: "string \<Rightarrow> string list \<Rightarrow> string" where
  "join sep [] = []"
| "join sep [x] = x"
| "join sep (x # y # ys) = x @ sep @ join sep (y # ys)"

definition DeviceNotFoundAlert_init ::
  "inference_engine \<Rightarrow> string \<Rightarrow> string list \<Rightarrow> NotebookAlert \<times> string list" where
  "DeviceNotFoundAlert_init ie device out =
     (let supported_devices = available_devices ie;
          msg = ''Running this cell requires a '' @ device @ '' device, ''
                @ ''which is not available on this system. '';
          cls = ''warning'';
          msg' = (if length supported_devices = 1
                  then msg @ ''The following device is available: '' @ available_devices ie ! 0
                  else msg @ ''The following devices are available: ''
                           @ join '', '' (available_devices ie))
      in NotebookAlert_init msg' cls out)"

definition check_device :: "inference_engine \<Rightarrow> string \<Rightarrow> string list \<Rightarrow> bool \<times> string list" where
  "check_device ie device out =
     (if device \<notin> set (available_devices ie)
      then (False, snd (DeviceNotFoundAlert_init ie device out))
      else (True, out))"

text \<open>
  Python's \<^verbatim>\<open>sub in s\<close> on strings: \<open>sub\<close> starts at some position of \<open>s\<close>.
\<close>

fun startswith :: "string \<Rightarrow> string \<Rightarrow> bool" where
  "startswith s [] = True"
| "startswith [] (p # ps) = False"
| "startswith (c # s) (p # ps) = (c = p \<and> startswith s ps)"

fun str_contains :: "string \<Rightarrow> string \<Rightarrow> bool" where
  "str_contains [] sub = (sub = [])"
| "str_contains (c # s) sub = (startswith (c # s) sub \<or> str_contains s sub)"

definition version_message :: "string \<Rightarrow> string \<Rightarrow> string" where
  \<open>version_message version installed_version =
     ''This notebook requires OpenVINO '' @ version @ ''. ''
     @ ''The version on your system is: <i>'' @ installed_version @ ''</i>.<br>''
     @ ''Please run <span style='font-family:monospace'>pip install --upgrade -r requirements.txt</span> ''
     @ ''in the openvino_env environment to install this version. ''
     @ ''See the <a href='https://github.com/openvinotoolkit/openvino_notebooks'>''
     @ ''OpenVINO Notebooks README</a> for detailed instructions''\<close>

definition check_openvino_version ::
  "inference_engine \<Rightarrow> string \<Rightarrow> string list \<Rightarrow> bool \<times> string list" where
  "check_openvino_version ie version out =
     (let installed_version = get_version ie in
      if \<not> str_contains installed_version version
      then (False, snd (NotebookAlert_init (version_message version installed_version) ''danger'' out))
      else (True, out))"

subsection \<open>Segmentation maps\<close>

text \<open>
  \<^verbatim>\<open>cv2.findContours\<close> and \<^verbatim>\<open>cv2.drawContours\<close> belong to OpenCV and are arguments
  of the model: \<open>findContours\<close> receives the one-channel image, the retrieval mode and the
  approximation method and answers with its result (contours and hierarchy, of an
  arbitrary type \<open>'c\<close>) or with an exception; \<open>drawContours\<close> receives the image drawn
  on, the contours, the contour index, the colour and the thickness, and answers with
  the image after drawing.
\<close>

datatype retrieval_mode = RETR_EXTERNAL | RETR_TREE

datatype approximation = CHAIN_APPROX_NONE | CHAIN_APPROX_SIMPLE

text \<open>
  The output image: an array of shape \<open>(height, width, 3)\<close>, kept as one channel vector per
  pixel in row-major order.
\<close>

record rgb_image =
  height :: nat
  width :: nat
  pixels :: "int list list"

record 'c cv2 =
  findContours :: "nat ndarray \<Rightarrow> retrieval_mode \<Rightarrow> approximation \<Rightarrow> error + 'c"
  drawContours :: "rgb_image \<Rightarrow> 'c \<Rightarrow> int \<Rightarrow> int list \<Rightarrow> int \<Rightarrow> error + rgb_image"

definition FILLED :: int where
  "FILLED = - 1"

text \<open>\<^verbatim>\<open>np.unique\<close>: the distinct elements, sorted.\<close>

definition unique :: "int list \<Rightarrow> int list" where
  "unique xs = sort (remdups xs)"

text \<open>\<^verbatim>\<open>result.squeeze(0)\<close>, called only where the first axis has length one.\<close>

definition squeeze0 :: "'a ndarray \<Rightarrow> 'a ndarray" where
  "squeeze0 a = a\<lparr>shape := tl (shape a)\<rparr>"

text \<open>\<^verbatim>\<open>result.astype(np.uint8)\<close> on integers keeps the low eight bits.\<close>

definition astype_uint8 :: "int ndarray \<Rightarrow> nat ndarray" where
  "astype_uint8 a = \<lparr>shape = shape a, data = map (\<lambda>v. nat (v mod 256)) (data a)\<rparr>"

text \<open>
  \<^verbatim>\<open>
  label_index_map = result == label_index
  label_index_map = label_index_map.astype(np.uint8) * 255
  \<close>
\<close>

definition label_index_map :: "nat ndarray \<Rightarrow> nat \<Rightarrow> nat ndarray" where
  "label_index_map result label_index =
     \<lparr>shape = shape result,
      data = map (\<lambda>v. (if v = label_index then 1 else 0) * 255) (data result)\<rparr>"

text \<open>\<^verbatim>\<open>np.zeros((h, w, 3), dtype=np.uint8)\<close>\<close>

definition zeros :: "nat \<Rightarrow> nat \<Rightarrow> rgb_image" where
  "zeros h w = \<lparr>height = h, width = w, pixels = replicate (h * w) [0, 0, 0]\<rparr>"

text \<open>
  The first part of \<^verbatim>\<open>segmentation_map_to_image\<close>, up to the cast:
  \<^verbatim>\<open>
  if len(result.shape) != 2 and result.shape[0] != 1:
      raise ValueError(...)
  if len(np.unique(result)) > colormap.shape[0]:
      raise ValueError(f"Expected max {colormap[0]} classes in result, ...")
  elif result.shape[0] == 1:
      result = result.squeeze(0)
  result = result.astype(np.uint8)
  \<close>
  \<^verbatim>\<open>result.shape[0]\<close> on an array without axes raises \<open>IndexError\<close>, and so does
  \<^verbatim>\<open>colormap[0]\<close>, which the second message formats, on a colormap without rows.
\<close>

definition prepare_result :: "int ndarray \<Rightarrow> int list list \<Rightarrow> error + nat ndarray" where
  "prepare_result result colormap =
     (if length (shape result) \<noteq> 2 \<and> shape result = [] then Inl IndexError
      else if length (shape result) \<noteq> 2 \<and> shape result ! 0 \<noteq> 1 then Inl ValueError
      else if length (unique (data result)) > length colormap
        then (if colormap = [] then Inl IndexError else Inl ValueError)
      else if shape result ! 0 = 1 then Inr (astype_uint8 (squeeze0 result))
      else Inr (astype_uint8 result))"

text \<open>
  \<^verbatim>\<open>mask = np.zeros((result.shape[0], result.shape[1], 3), dtype=np.uint8)\<close>:
  indexing the shape raises \<open>IndexError\<close> when the array has fewer than two axes.
\<close>

definition blank_mask :: "nat ndarray \<Rightarrow> error + rgb_image" where
  "blank_mask result =
     (if length (shape result) < 2 then Inl IndexError
      else Inr (zeros (shape result ! 0) (shape result ! 1)))"

text \<open>
  The loop \<^verbatim>\<open>for label_index, color in enumerate(colormap)\<close>, with the rows still to
  visit and the index of the first of them.  The image \<open>mask\<close> of the source is
  \<open>mask_img\<close> here.
\<close>

fun draw_labels ::
  "'c cv2 \<Rightarrow> retrieval_mode \<Rightarrow> nat ndarray \<Rightarrow> nat \<Rightarrow> int list list \<Rightarrow> rgb_image \<Rightarrow> error + rgb_image" where
  "draw_labels cv contour_mode result label_index [] mask_img = Inr mask_img"
| "draw_labels cv contour_mode result label_index (color # colormap) mask_img =
     (case findContours cv (label_index_map result label_index) contour_mode CHAIN_APPROX_SIMPLE of
        Inl e \<Rightarrow> Inl e
      | Inr contours \<Rightarrow>
          (case drawContours cv mask_img contours (- 1) color FILLED of
             Inl e \<Rightarrow> Inl e
           | Inr mask_img' \<Rightarrow>
               draw_labels cv contour_mode result (Suc label_index) colormap mask_img'))"

definition segmentation_map_to_image ::
  "'c cv2 \<Rightarrow> int ndarray \<Rightarrow> int list list \<Rightarrow> bool \<Rightarrow> error + rgb_image" where
  "segmentation_map_to_image cv result colormap remove_holes =
     bind_err (prepare_result result colormap) (\<lambda>result.
       let contour_mode = (if remove_holes then RETR_EXTERNAL else RETR_TREE) in
       bind_err (blank_mask result) (\<lambda>mask_img.
         draw_labels cv contour_mode result 0 colormap mask_img))"

text \<open>
  The loop as the specification words it: the classes are visited in increasing index
  order; for each one the binary mask of the pixels equal to the index is formed, its
  contours are detected (external ones only when holes are to be removed, the full tree
  otherwise) and filled into the output image with the colour of the class.
\<close>

definition fill_class ::
  "'c cv2 \<Rightarrow> bool \<Rightarrow> nat ndarray \<Rightarrow> rgb_image \<Rightarrow> nat \<times> int list \<Rightarrow> error + rgb_image" where
  "fill_class cv remove_holes result img = (\<lambda>(label_index, color).
     bind_err
       (findContours cv
          \<lparr>shape = shape result, data = map (\<lambda>v. if v = label_index then 255 else 0) (data result)\<rparr>
          (if remove_holes then RETR_EXTERNAL else RETR_TREE) CHAIN_APPROX_SIMPLE)
       (\<lambda>contours. drawContours cv img contours (- 1) color (- 1)))"

definition fill_classes_in_order ::
  "'c cv2 \<Rightarrow> bool \<Rightarrow> nat ndarray \<Rightarrow> int list list \<Rightarrow> rgb_image \<Rightarrow> error + rgb_image" where
  "fill_classes_in_order cv remove_holes result colormap img =
     foldl (\<lambda>acc cls. bind_err acc (\<lambda>img. fill_class cv remove_holes result img cls))
       (Inr img) (zip [0 ..< length colormap] colormap)"

text \<open>
  The reference colouring: every pixel receives the colormap row of its class index.
\<close>

definition color_lookup :: "nat \<Rightarrow> nat \<Rightarrow> int list \<Rightarrow> int list list \<Rightarrow> rgb_image" where
  "color_lookup h w classes colormap =
     \<lparr>height = h, width = w, pixels = map (\<lambda>v. colormap ! nat v) classes\<rparr>"

subsection \<open>Files\<close>

text \<open>
  The platform under \<^verbatim>\<open>download_file\<close> is an argument.  Paths are values of an
  arbitrary type \<open>'p\<close> with the operations of \<^verbatim>\<open>pathlib\<close> that the function uses;
  \<open>url_path_name\<close> is \<^verbatim>\<open>Path(urllib.parse.urlparse(url).path).name\<close>.  The network
  answers a request for a url with the headers of the response (\<open>urlopen\<close>) and with the
  body (\<open>urlretrieve\<close>), or with an exception.
\<close>

record http_message =
  get_filename :: "string option"
  Content_Length :: "nat option"

record 'p platform =
  Path :: "string \<Rightarrow> 'p"
  parts :: "'p \<Rightarrow> string list"
  joinpath :: "'p \<Rightarrow> 'p \<Rightarrow> 'p"
  parents :: "'p \<Rightarrow> 'p list"
  resolve :: "'p \<Rightarrow> 'p"
  dir_st_size :: nat
  url_path_name :: "string \<Rightarrow> string"
  urlopen :: "string \<Rightarrow> error + http_message"
  urlretrieve :: "string \<Rightarrow> error + string"

text \<open>
  The state: the entries of the file system, the headers of the opener that
  \<^verbatim>\<open>urllib.request.install_opener\<close> installed last, and the requests sent so far, oldest
  first.  What the function prints or shows in the notebook (the progress bar, the note
  that a file already exists) is not part of the state; the progress bar runs inside a
  \<^verbatim>\<open>try\<close> block that swallows its exceptions.
\<close>

datatype entry = RegularFile string | Directory

record request =
  req_url :: string
  req_headers :: "(string \<times> string) list"

record 'p system =
  files :: "'p \<rightharpoonup> entry"
  opener_headers :: "(string \<times> string) list"
  requests :: "request list"

definition exists :: "'p system \<Rightarrow> 'p \<Rightarrow> bool" where
  "exists s p \<longleftrightarrow> files s p \<noteq> None"

text \<open>
  \<^verbatim>\<open>os.stat(filename).st_size\<close>; asked only for a path that exists.
\<close>

definition st_size :: "'p platform \<Rightarrow> 'p system \<Rightarrow> 'p \<Rightarrow> nat" where
  "st_size pf s p =
     (case files s p of
        Some (RegularFile content) \<Rightarrow> length content
      | Some Directory \<Rightarrow> dir_st_size pf
      | None \<Rightarrow> 0)"

fun is_regular :: "entry option \<Rightarrow> bool" where
  "is_regular (Some (RegularFile content)) = True"
| "is_regular other = False"

text \<open>
  \<^verbatim>\<open>directory.mkdir(parents=True, exist_ok=True)\<close>: the directory and its missing
  parents are created; a regular file in the way makes pathlib raise.
\<close>

definition mkdir :: "'p platform \<Rightarrow> 'p \<Rightarrow> 'p system \<Rightarrow> error + 'p system" where
  "mkdir pf directory s =
     (if list_ex (\<lambda>p. is_regular (files s p)) (directory # parents pf directory)
      then Inl (LibraryError ''FileExistsError'')
      else Inr (s\<lparr>files := (\<lambda>p. if p \<in> set (directory # parents pf directory) \<and> files s p = None
                                 then Some Directory else files s p)\<rparr>))"

text \<open>
  \<^verbatim>\<open>urllib.request.urlretrieve(url, filename, progress_callback)\<close>: one request for the
  url with the headers of the installed opener, and the body written to the file.
\<close>

definition urlretrieve_to :: "'p platform \<Rightarrow> string \<Rightarrow> 'p \<Rightarrow> 'p system \<Rightarrow> error + 'p system" where
  "urlretrieve_to pf url filename s =
     (let s = s\<lparr>requests := requests s @ [\<lparr>req_url = url, req_headers = opener_headers s\<rparr>]\<rparr> in
      case urlretrieve pf url of
        Inl e \<Rightarrow> Inl e
      | Inr body \<Rightarrow>
          if files s filename = Some Directory then Inl (LibraryError ''IsADirectoryError'')
          else Inr (s\<lparr>files := (files s)(filename \<mapsto> RegularFile body)\<rparr>))"

text \<open>Decimal digits of a number, for the message built from \<^verbatim>\<open>e.code\<close>.\<close>

fun str_nat :: "nat \<Rightarrow> string" where
  "str_nat n =
     (if n < 10 then [char_of (48 + n)] else str_nat (n div 10) @ [char_of (48 + n mod 10)])"

text \<open>
  \<^verbatim>\<open>
  except urllib.error.HTTPError as e:
      raise Exception(f"File downloading failed with error: {e.code} {e.msg}") from None
  \<close>
  Any other exception passes through.
\<close>

fun except_HTTPError :: "error \<Rightarrow> error" where
  "except_HTTPError (HTTPError code msg) =
     Exception (''File downloading failed with error: '' @ str_nat code @ '' '' @ msg)"
| "except_HTTPError e = e"

text \<open>
  \<^verbatim>\<open>urlobject.info().get_filename() or Path(urllib.parse.urlparse(url).path).name\<close>:
  the name announced by the response, unless it is missing or empty.
\<close>

definition response_filename :: "'p platform \<Rightarrow> string \<Rightarrow> http_message \<Rightarrow> string" where
  "response_filename pf url urlobject =
     (case get_filename urlobject of
        Some name \<Rightarrow> if name \<noteq> [] then name else url_path_name pf url
      | None \<Rightarrow> url_path_name pf url)"

text \<open>
  \<^verbatim>\<open>
  def download_file(url, filename=None, directory=None, show_progress=True):
      if filename is None:
          try:
              opener = urllib.request.build_opener()
              opener.addheaders = [("User-agent", "Mozilla/5.0")]
              urllib.request.install_opener(opener)
              urlobject = urllib.request.urlopen(url)
              filename = urlobject.info().get_filename() or Path(urllib.parse.urlparse(url).path).name
          except urllib.error.HTTPError as e:
              raise Exception(...) from None
      filename = Path(filename)
      if filename is not None and len(filename.parts) > 1:
          raise ValueError(...)
      if directory is not None:
          directory = Path(directory)
          directory.mkdir(parents=True, exist_ok=True)
          filename = directory / Path(filename)
      urlobject_size = urlobject_size = int(urlobject.info().get("Content-Length", 0))
      if not filename.exists() or (os.stat(filename).st_size != urlobject_size):
          progress_callback = DownloadProgressBar(filename) if show_progress else None
          urllib.request.urlretrieve(url, filename, progress_callback)
      else:
          print(f"'{filename}' already exists.")
      return filename.resolve()
  \<close>
  The local variable \<open>urlobject\<close> is bound in the first branch only; it is an option
  here, and reading it unbound raises \<open>UnboundLocalError\<close>.
\<close>

definition download_file ::
  "'p platform \<Rightarrow> string \<Rightarrow> string option \<Rightarrow> string option \<Rightarrow> bool \<Rightarrow> 'p system
     \<Rightarrow> error + ('p \<times> 'p system)" where
  "download_file pf url filename directory show_progress s =
     bind_err
       (case filename of
          None \<Rightarrow>
            (let s = s\<lparr>opener_headers := [(''User-agent'', ''Mozilla/5.0'')]\<rparr>;
                 s = s\<lparr>requests := requests s @ [\<lparr>req_url = url, req_headers = opener_headers s\<rparr>]\<rparr>
             in case urlopen pf url of
                  Inl e \<Rightarrow> Inl (except_HTTPError e)
                | Inr urlobject \<Rightarrow> Inr (Some urlobject, response_filename pf url urlobject, s))
        | Some name \<Rightarrow> Inr (None, name, s))
       (\<lambda>(urlobject, filename, s).
          let filename = Path pf filename in
          if length (parts pf filename) > 1 then Inl ValueError
          else
            bind_err
              (case directory of
                 None \<Rightarrow> Inr (filename, s)
               | Some d \<Rightarrow>
                   (let directory = Path pf d in
                    bind_err (mkdir pf directory s) (\<lambda>s. Inr (joinpath pf directory filename, s))))
              (\<lambda>(filename, s).
                 case urlobject of
                   None \<Rightarrow> Inl UnboundLocalError
                 | Some urlobject \<Rightarrow>
                     (let urlobject_size = (case Content_Length urlobject of Some n \<Rightarrow> n | None \<Rightarrow> 0) in
                      if \<not> exists s filename \<or> st_size pf s filename \<noteq> urlobject_size
                      then bind_err (urlretrieve_to pf url filename s)
                             (\<lambda>s. Inr (resolve pf filename, s))
                      else Inr (resolve pf filename, s))))"


text \<open>
  The path that \<^verbatim>\<open>download_file\<close> computes for a file name and a directory.
\<close>

definition target_path :: "'p platform \<Rightarrow> string option \<Rightarrow> string \<Rightarrow> 'p" where
  "target_path pf directory name =
     (case directory of
        None \<Rightarrow> Path pf name
      | Some d \<Rightarrow> joinpath pf (Path pf d) (Path pf name))"

text \<open>
  A small platform for running the model: a path is the list of its components, every
  path is relative to the directory \<open>/work\<close>, and the network serves a table of urls
  with their response headers and bodies and answers 404 for any other url.
\<close>

fun components :: "string \<Rightarrow> string \<Rightarrow> string list" where
  "components acc [] = (if acc = [] then [] else [acc])"
| "components acc (c # cs) =
     (if c = CHR ''/'' then (if acc = [] then [] else [acc]) @ components [] cs
      else components (acc @ [c]) cs)"

definition demo_platform :: "(string \<times> http_message \<times> string) list \<Rightarrow> (string list) platform" where
  "demo_platform served =
     \<lparr>Path = components [],
      parts = (\<lambda>p. p),
      joinpath = (\<lambda>d f. d @ f),
      parents = (\<lambda>p. map (\<lambda>n. take n p) (rev [0 ..< length p])),
      resolve = (\<lambda>p. [''/'', ''work''] @ p),
      dir_st_size = 4096,
      url_path_name = (\<lambda>url. case components [] url of [] \<Rightarrow> [] | c # cs \<Rightarrow> last (c # cs)),
      urlopen = (\<lambda>url. case map_of served url of
                          None \<Rightarrow> Inl (HTTPError 404 ''Not Found'')
                        | Some (headers, body) \<Rightarrow> Inr headers),
      urlretrieve = (\<lambda>url. case map_of served url of
                          None \<Rightarrow> Inl (HTTPError 404 ''Not Found'')
                        | Some (headers, body) \<Rightarrow> Inr body)\<rparr>"

text \<open>
  The state in which \<^verbatim>\<open>download_file\<close> continues after the opener is installed and the
  request for the headers is sent, the creation of the directory, and the size that the
  response announces (\<^verbatim>\<open>int(urlobject.info().get("Content-Length", 0))\<close>).
\<close>

definition opened_state :: "string \<Rightarrow> 'p system \<Rightarrow> 'p system" where
  "opened_state url s =
     s\<lparr>opener_headers := [(''User-agent'', ''Mozilla/5.0'')],
       requests := requests s @ [\<lparr>req_url = url, req_headers = [(''User-agent'', ''Mozilla/5.0'')]\<rparr>]\<rparr>"

definition with_directory :: "'p platform \<Rightarrow> string option \<Rightarrow> 'p system \<Rightarrow> error + 'p system" where
  "with_directory pf directory s =
     (case directory of None \<Rightarrow> Inr s | Some d \<Rightarrow> mkdir pf (Path pf d) s)"

definition announced_size :: "http_message \<Rightarrow> nat" where
  "announced_size urlobject = (case Content_Length urlobject of Some n \<Rightarrow> n | None \<Rightarrow> 0)"




section \<open>Properties\<close>

subsection \<open>Pixel conversions\<close>










text \<open>
  C10, as amended: on every three-channel image that has a pixel and whose element
  type is \<open>uint8\<close>, \<open>uint16\<close> or \<open>float32\<close>, \<open>to_rgb\<close> returns the image with the first
  and the third channel of each pixel exchanged, and so does \<open>to_bgr\<close>; converting to
  RGB and back to BGR returns the image, and so does converting to BGR and back to RGB.
\<close>

theorem to_rgb_to_bgr_roundtrip:
  "0 < img_height img \<and> 0 < img_width img
   \<and> (img_dtype img = uint8 \<or> img_dtype img = uint16 \<or> img_dtype img = float32) \<Longrightarrow>
     to_rgb img = Inr (img\<lparr>img_pixels := map (\<lambda>(b, g, r). (r, g, b)) (img_pixels img)\<rparr>)
     \<and> to_bgr img = Inr (img\<lparr>img_pixels := map (\<lambda>(r, g, b). (b, g, r)) (img_pixels img)\<rparr>)
     \<and> bind_err (to_rgb img) to_bgr = Inr img \<and> bind_err (to_bgr img) to_rgb = Inr img"
  by (auto simp: to_rgb_def to_bgr_def cvtColor_def bind_err_def o_def case_prod_unfold)

theorem to_rgb_to_bgr_roundtrip_witness:
  "to_rgb \<lparr>img_dtype = uint8, img_height = 1, img_width = 2, img_pixels = [(0, 1, 2), (3, 4, 5 :: nat)]\<rparr>
     = Inr \<lparr>img_dtype = uint8, img_height = 1, img_width = 2, img_pixels = [(2, 1, 0), (5, 4, 3)]\<rparr>
   \<and> bind_err (to_rgb \<lparr>img_dtype = uint8, img_height = 1, img_width = 2, img_pixels = [(0, 1, 2), (3, 4, 5 :: nat)]\<rparr>) to_bgr
     = Inr \<lparr>img_dtype = uint8, img_height = 1, img_width = 2, img_pixels = [(0, 1, 2), (3, 4, 5)]\<rparr>"
  using to_rgb_to_bgr_roundtrip
    [of "\<lparr>img_dtype = uint8, img_height = 1, img_width = 2, img_pixels = [(0, 1, 2), (3, 4, 5 :: nat)]\<rparr>"]
  by (simp add: bind_err_def to_bgr_def cvtColor_def)

text \<open>
  C10, as stated, fails on a three-channel image of the element type \<open>int32\<close>, which
  numpy gives to an array of Python integers of that width: OpenCV does not convert
  the colours of that depth, \<open>to_rgb\<close> raises \<open>cv2.error\<close>, and the round trip does not
  return the image.
\<close>

theorem to_rgb_rejects_int32:
  "to_rgb \<lparr>img_dtype = int32, img_height = 1, img_width = 1, img_pixels = [(0, 1, 2 :: int)]\<rparr>
     = Inl (LibraryError ''cv2.error'')
   \<and> bind_err (to_rgb \<lparr>img_dtype = int32, img_height = 1, img_width = 1, img_pixels = [(0, 1, 2 :: int)]\<rparr>) to_bgr
     \<noteq> Inr \<lparr>img_dtype = int32, img_height = 1, img_width = 1, img_pixels = [(0, 1, 2)]\<rparr>"
  by (simp add: to_rgb_def cvtColor_def bind_err_def)


subsection \<open>Checks and alerts\<close>

lemma startswith_iff: "startswith s p \<longleftrightarrow> (\<exists>q. s = p @ q)"
  by (induction s p rule: startswith.induct) auto

lemma str_contains_sublist: "str_contains s sub \<longleftrightarrow> sublist sub s"
proof (induction s)
  case Nil
  then show ?case by simp
next
  case (Cons c s)
  have "startswith (c # s) sub \<longleftrightarrow> prefix sub (c # s)"
    by (simp add: startswith_iff prefix_def)
  with Cons show ?case by (simp add: sublist_Cons_right)
qed

lemma sublist_behind: "sublist d ys \<Longrightarrow> sublist d (ps @ ys)"
proof -
  assume "sublist d ys"
  then obtain p s where "ys = p @ d @ s" by (auto simp: sublist_def)
  then have "ps @ ys = (ps @ p) @ d @ s" by simp
  then show ?thesis unfolding sublist_def by blast
qed

lemma sublist_join: "d \<in> set ds \<Longrightarrow> sublist d (join sep ds)"
proof (induction sep ds rule: join.induct)
  case (1 sep)
  then show ?case by simp
next
  case (2 sep x)
  then show ?case by simp
next
  case (3 sep x y ys)
  show ?case
  proof (cases "d = x")
    case True
    then show ?thesis by simp
  next
    case False
    with 3 have "sublist d (join sep (y # ys))" by simp
    then have "sublist d ((x @ sep) @ join sep (y # ys))"
      by (rule sublist_behind)
    then show ?thesis by simp
  qed
qed

text \<open>
  C5: \<open>check_device\<close> returns \<open>True\<close> exactly when the device is in the list of
  available devices, and then shows nothing.  When it returns \<open>False\<close> it has built a
  \<open>DeviceNotFoundAlert\<close>, a warning that is shown, whose message contains the name of the
  requested device and the name of every available device.
\<close>

theorem check_device_spec:
  "fst (check_device ie device out) = (device \<in> set (available_devices ie))
   \<and> (device \<in> set (available_devices ie) \<longrightarrow> snd (check_device ie device out) = out)
   \<and> (device \<notin> set (available_devices ie) \<longrightarrow>
        (\<exists>alert. DeviceNotFoundAlert_init ie device out = (alert, snd (check_device ie device out))
           \<and> snd (check_device ie device out) = show_message alert out
           \<and> alert_class alert = ''warning''
           \<and> sublist device (message alert)
           \<and> (\<forall>d\<in>set (available_devices ie). sublist d (message alert))))"
proof (intro conjI impI)
  show "fst (check_device ie device out) = (device \<in> set (available_devices ie))"
    by (simp add: check_device_def)
next
  assume "device \<in> set (available_devices ie)"
  then show "snd (check_device ie device out) = out"
    by (simp add: check_device_def)
next
  assume missing: "device \<notin> set (available_devices ie)"
  let ?devs = "available_devices ie"
  define intro where "intro = ''Running this cell requires a ''"
  define rest where "rest = '' device, '' @ ''which is not available on this system. ''"
  define one where "one = ''The following device is available: ''"
  define many where "many = ''The following devices are available: ''"
  define tail where "tail = (if length ?devs = 1 then one @ ?devs ! 0 else many @ join '', '' ?devs)"
  define alert where "alert = \<lparr>message = (intro @ device @ rest) @ tail, alert_class = ''warning''\<rparr>"
  have init: "DeviceNotFoundAlert_init ie device out = (alert, show_message alert out)"
    by (simp add: DeviceNotFoundAlert_init_def NotebookAlert_init_def Let_def alert_def tail_def
        intro_def rest_def one_def many_def)
  have named: "sublist device (message alert)"
  proof -
    have "sublist device (intro @ device @ (rest @ tail))"
      by (rule sublist_appendI)
    then show ?thesis by (simp add: alert_def)
  qed
  have listed: "sublist d (message alert)" if "d \<in> set ?devs" for d
  proof -
    have "sublist d tail"
    proof (cases "length ?devs = 1")
      case True
      then obtain x where "?devs = [x]" by (cases ?devs) auto
      with that have "tail = one @ d" by (simp add: tail_def)
      then show ?thesis by (simp only: sublist_append_leftI)
    next
      case False
      have "sublist d (join '', '' ?devs)" using that by (rule sublist_join)
      then have "sublist d (many @ join '', '' ?devs)"
        by (rule sublist_behind)
      with False show ?thesis by (simp only: tail_def if_False)
    qed
    then have "sublist d ((intro @ device @ rest) @ tail)"
      by (rule sublist_behind)
    then show ?thesis by (simp add: alert_def)
  qed
  have shown: "snd (check_device ie device out) = show_message alert out"
    using missing init by (simp add: check_device_def)
  have cls: "alert_class alert = ''warning''"
    by (simp add: alert_def)
  from init shown cls named listed
  show "\<exists>alert. DeviceNotFoundAlert_init ie device out = (alert, snd (check_device ie device out))
           \<and> snd (check_device ie device out) = show_message alert out
           \<and> alert_class alert = ''warning''
           \<and> sublist device (message alert)
           \<and> (\<forall>d\<in>set (available_devices ie). sublist d (message alert))"
    by (intro exI [of _ alert]) simp
qed

theorem check_device_spec_witness:
  "check_device \<lparr>available_devices = [''CPU'', ''GPU''], get_version = ''2021.4''\<rparr> ''CPU'' [] = (True, [])
   \<and> fst (check_device \<lparr>available_devices = [''CPU'', ''GPU''], get_version = ''2021.4''\<rparr> ''HELLOWORLD'' []) = False
   \<and> length (snd (check_device \<lparr>available_devices = [''CPU'', ''GPU''], get_version = ''2021.4''\<rparr> ''HELLOWORLD'' [])) = 1"
  using check_device_spec [of "\<lparr>available_devices = [''CPU'', ''GPU''], get_version = ''2021.4''\<rparr>" "''CPU''" "[]"]
        check_device_spec [of "\<lparr>available_devices = [''CPU'', ''GPU''], get_version = ''2021.4''\<rparr>" "''HELLOWORLD''" "[]"]
  by (auto simp: show_message_def prod_eq_iff)

text \<open>
  C6: \<open>check_openvino_version\<close> returns \<open>True\<close> exactly when the requested version
  occurs as a substring of the installed version, and then shows nothing.  Otherwise
  it builds a \<open>NotebookAlert\<close> of the class \<open>danger\<close> whose message names the requested
  and the installed version, the notebook shows one more item, the \<open>div\<close> of the
  class \<open>alert alert-danger\<close> with that message, and the function returns \<open>False\<close>.
\<close>

theorem check_openvino_version_spec:
  \<open>fst (check_openvino_version ie version out) = sublist version (get_version ie)
   \<and> (sublist version (get_version ie) \<longrightarrow> snd (check_openvino_version ie version out) = out)
   \<and> (\<not> sublist version (get_version ie) \<longrightarrow>
        (\<exists>alert. alert_class alert = ''danger''
           \<and> message alert = version_message version (get_version ie)
           \<and> sublist version (message alert) \<and> sublist (get_version ie) (message alert)
           \<and> NotebookAlert_init (message alert) ''danger'' out
               = (alert, snd (check_openvino_version ie version out))
           \<and> snd (check_openvino_version ie version out)
               = out @ [''<div class="alert alert-danger">'' @ message alert]))\<close>
proof (intro conjI impI)
  show "fst (check_openvino_version ie version out) = sublist version (get_version ie)"
    by (simp add: check_openvino_version_def Let_def str_contains_sublist)
next
  assume "sublist version (get_version ie)"
  then show "snd (check_openvino_version ie version out) = out"
    by (simp add: check_openvino_version_def Let_def str_contains_sublist)
next
  assume absent: "\<not> sublist version (get_version ie)"
  define alert where
    "alert = \<lparr>message = version_message version (get_version ie), alert_class = ''danger''\<rparr>"
  have msg: "message alert = version_message version (get_version ie)"
    by (simp add: alert_def)
  have shown: \<open>snd (check_openvino_version ie version out)
      = out @ [''<div class="alert alert-danger">'' @ message alert]\<close>
    using absent
    by (simp add: check_openvino_version_def Let_def str_contains_sublist NotebookAlert_init_def
        show_message_def alert_def)
  have init: "NotebookAlert_init (message alert) ''danger'' out
      = (alert, snd (check_openvino_version ie version out))"
    unfolding shown by (simp add: NotebookAlert_init_def Let_def show_message_def alert_def)
  have cls: "alert_class alert = ''danger''"
    by (simp add: alert_def)
  have v1: "sublist version (message alert)"
    unfolding msg version_message_def by (rule sublist_appendI)
  have v2: "sublist (get_version ie) (message alert)"
  proof -
    have "sublist (get_version ie)
        ((''This notebook requires OpenVINO '' @ version @ ''. '' @ ''The version on your system is: <i>'')
          @ get_version ie @ (''</i>.<br>''
     @ ''Please run <span style='font-family:monospace'>pip install --upgrade -r requirements.txt</span> ''
     @ ''in the openvino_env environment to install this version. ''
     @ ''See the <a href='https://github.com/openvinotoolkit/openvino_notebooks'>''
     @ ''OpenVINO Notebooks README</a> for detailed instructions''))"
      by (rule sublist_appendI)
    then show ?thesis unfolding msg version_message_def by (simp only: append_assoc)
  qed
  from cls msg v1 v2 init shown
  show \<open>\<exists>alert. alert_class alert = ''danger''
           \<and> message alert = version_message version (get_version ie)
           \<and> sublist version (message alert) \<and> sublist (get_version ie) (message alert)
           \<and> NotebookAlert_init (message alert) ''danger'' out
               = (alert, snd (check_openvino_version ie version out))
           \<and> snd (check_openvino_version ie version out)
               = out @ [''<div class="alert alert-danger">'' @ message alert]\<close>
    by (intro exI [of _ alert]) (simp only: simp_thms)
qed

theorem check_openvino_version_spec_witness:
  \<open>check_openvino_version \<lparr>available_devices = [''CPU''], get_version = ''2021.4.0-3839-cd81789d294''\<rparr> ''2021.4'' []
     = (True, [])
   \<and> check_openvino_version \<lparr>available_devices = [''CPU''], get_version = ''2021.4.0-3839-cd81789d294''\<rparr> ''2022.1'' []
     = (False, [''<div class="alert alert-danger">''
                  @ version_message ''2022.1'' ''2021.4.0-3839-cd81789d294''])\<close>
proof -
  define ie where "ie = \<lparr>available_devices = [''CPU''], get_version = ''2021.4.0-3839-cd81789d294''\<rparr>"
  have installed: "get_version ie = ''2021.4.0-3839-cd81789d294''"
    by (simp add: ie_def)
  have here: "sublist ''2021.4'' (get_version ie)"
    unfolding installed by (simp add: str_contains_sublist [symmetric])
  have absent: "\<not> sublist ''2022.1'' (get_version ie)"
    unfolding installed by (simp add: str_contains_sublist [symmetric])
  have yes: "check_openvino_version ie ''2021.4'' [] = (True, [])"
    using check_openvino_version_spec [of ie "''2021.4''" "[]"] here
    by (simp only: prod_eq_iff fst_conv snd_conv simp_thms)
  have spec: \<open>fst (check_openvino_version ie ''2022.1'' []) = False
      \<and> (\<exists>alert :: NotebookAlert. message alert = version_message ''2022.1'' (get_version ie)
            \<and> snd (check_openvino_version ie ''2022.1'' [])
                 = [] @ [''<div class="alert alert-danger">'' @ message alert])\<close>
    using check_openvino_version_spec [of ie "''2022.1''" "[]"] absent
    by (simp only: simp_thms) blast
  then obtain alert :: NotebookAlert
    where msg: "message alert = version_message ''2022.1'' (get_version ie)"
      and shown: \<open>snd (check_openvino_version ie ''2022.1'' [])
                 = [] @ [''<div class="alert alert-danger">'' @ message alert]\<close>
    by blast
  from spec have "fst (check_openvino_version ie ''2022.1'' []) = False"
    by (rule conjunct1)
  with shown have no: \<open>check_openvino_version ie ''2022.1'' []
      = (False, [''<div class="alert alert-danger">'' @ version_message ''2022.1'' ''2021.4.0-3839-cd81789d294''])\<close>
    unfolding msg installed by (simp only: prod_eq_iff fst_conv snd_conv append_Nil simp_thms)
  from yes no show ?thesis
    unfolding ie_def by (rule conjI)
qed

subsection \<open>Segmentation maps\<close>

lemma foldl_bind_err_Inl:
  "foldl (\<lambda>acc x. bind_err acc (\<lambda>y. f y x)) (Inl e) xs = Inl e"
  by (induction xs) (simp_all add: bind_err_def)

lemma fill_class_step:
  "fill_class cv remove_holes result img (k, color) =
     (case findContours cv (label_index_map result k)
             (if remove_holes then RETR_EXTERNAL else RETR_TREE) CHAIN_APPROX_SIMPLE of
        Inl e \<Rightarrow> Inl e
      | Inr contours \<Rightarrow> drawContours cv img contours (- 1) color FILLED)"
proof -
  have "label_index_map result k =
      \<lparr>shape = shape result, data = map (\<lambda>v. if v = k then 255 else 0) (data result)\<rparr>"
    by (simp add: label_index_map_def)
  then show ?thesis
    by (simp only: fill_class_def bind_err_def FILLED_def prod.case)
qed

lemma draw_labels_foldl:
  "draw_labels cv (if remove_holes then RETR_EXTERNAL else RETR_TREE) result k colormap img =
     foldl (\<lambda>acc cls. bind_err acc (\<lambda>img. fill_class cv remove_holes result img cls))
       (Inr img) (zip [k ..< k + length colormap] colormap)"
proof (induction colormap arbitrary: k img)
  case Nil
  then show ?case by simp
next
  case (Cons color colormap)
  let ?mode = "if remove_holes then RETR_EXTERNAL else RETR_TREE"
  let ?step = "\<lambda>acc cls. bind_err acc (\<lambda>img. fill_class cv remove_holes result img cls)"
  have range: "[k ..< k + length (color # colormap)] = k # [Suc k ..< Suc k + length colormap]"
    by (subst upt_rec) simp
  have unfold: "foldl ?step (Inr img) (zip [k ..< k + length (color # colormap)] (color # colormap))
      = foldl ?step (fill_class cv remove_holes result img (k, color))
          (zip [Suc k ..< Suc k + length colormap] colormap)"
    unfolding range by (simp add: bind_err_def)
  show ?case
  proof (cases "findContours cv (label_index_map result k) ?mode CHAIN_APPROX_SIMPLE")
    case (Inl e)
    then have "fill_class cv remove_holes result img (k, color) = Inl e"
      by (simp only: fill_class_step sum.case)
    with Inl show ?thesis
      unfolding unfold by (simp only: draw_labels.simps sum.case foldl_bind_err_Inl)
  next
    case found: (Inr contours)
    show ?thesis
    proof (cases "drawContours cv img contours (- 1) color FILLED")
      case (Inl e)
      with found have "fill_class cv remove_holes result img (k, color) = Inl e"
        by (simp only: fill_class_step sum.case)
      with found Inl show ?thesis
        unfolding unfold by (simp only: draw_labels.simps sum.case foldl_bind_err_Inl)
    next
      case (Inr img')
      with found have "fill_class cv remove_holes result img (k, color) = Inr img'"
        by (simp only: fill_class_step sum.case)
      with found Inr show ?thesis
        unfolding unfold by (simp only: draw_labels.simps sum.case Cons.IH)
    qed
  qed
qed

text \<open>
  C7: after the checks and the cast, \<open>segmentation_map_to_image\<close> builds its output by
  one pass over the colormap rows in increasing class-index order, starting from the
  black image: for each class index it forms the binary mask of the pixels equal to the
  index, detects the contours of the mask (external contours only when
  \<open>remove_holes\<close> holds, the full tree otherwise) and fills them into the image with
  the colour of the class.  An exception of a step ends the pass.
\<close>

theorem segmentation_loop_spec:
  "segmentation_map_to_image cv result colormap remove_holes =
     bind_err (prepare_result result colormap) (\<lambda>label_map.
       bind_err (blank_mask label_map) (\<lambda>img.
         fill_classes_in_order cv remove_holes label_map colormap img))"
proof -
  have loop: "draw_labels cv (if remove_holes then RETR_EXTERNAL else RETR_TREE) label_map 0 colormap
      = fill_classes_in_order cv remove_holes label_map colormap" for label_map
  proof (rule ext)
    fix img
    show "draw_labels cv (if remove_holes then RETR_EXTERNAL else RETR_TREE) label_map 0 colormap img
      = fill_classes_in_order cv remove_holes label_map colormap img"
      using draw_labels_foldl [of cv remove_holes label_map 0 colormap img]
      by (simp add: fill_classes_in_order_def)
  qed
  show ?thesis
    unfolding segmentation_map_to_image_def Let_def by (simp only: loop)
qed

text \<open>
  C1: a result of shape \<open>(1, 3)\<close> whose entries 0, 1, 1 are class indices below the two
  rows of the colormap is a segmentation result of shape \<open>(H, W)\<close>.  The function does
  not return the image of the lookup table, nor any image: the array is squeezed to
  one axis and reading its second axis raises \<open>IndexError\<close>, whatever the contour
  library and whatever \<open>remove_holes\<close>.
\<close>

theorem segmentation_map_to_image_one_row:
  "length (shape \<lparr>shape = [1, 3], data = [0, 1, 1 :: int]\<rparr>) = 2
   \<and> 0 \<le> Min (set [0, 1, 1 :: int])
   \<and> Max (set [0, 1, 1 :: int]) < int (length [[0, 0, 0], [255, 0, 0 :: int]])
   \<and> segmentation_map_to_image cv \<lparr>shape = [1, 3], data = [0, 1, 1]\<rparr> [[0, 0, 0], [255, 0, 0]] remove_holes
       = Inl IndexError
   \<and> segmentation_map_to_image cv \<lparr>shape = [1, 3], data = [0, 1, 1]\<rparr> [[0, 0, 0], [255, 0, 0]] remove_holes
       \<noteq> Inr (color_lookup 1 3 [0, 1, 1] [[0, 0, 0], [255, 0, 0]])"
  by (simp add: segmentation_map_to_image_def prepare_result_def blank_mask_def bind_err_def
      unique_def astype_uint8_def squeeze0_def)

text \<open>
  A class index is cast to its low eight bits without a check: whatever the contour
  library does, a result with the entries 256 and 0 and a result with the entries 0
  and 0 give the same output under a colormap of 257 rows, although row 256 differs
  from row 0.
\<close>

lemma segmentation_map_to_image_low_bits_only:
  "segmentation_map_to_image cv \<lparr>shape = [2, 1], data = [256, 0]\<rparr>
      (replicate 256 [0, 0, 0] @ [[255, 255, 255]]) remove_holes
   = segmentation_map_to_image cv \<lparr>shape = [2, 1], data = [0, 0]\<rparr>
      (replicate 256 [0, 0, 0] @ [[255, 255, 255]]) remove_holes"
  by (simp add: segmentation_map_to_image_def prepare_result_def unique_def astype_uint8_def)

text \<open>
  With a colormap without rows the second check cannot build its message: it raises
  \<open>IndexError\<close> where \<open>ValueError\<close> was meant.
\<close>

lemma segmentation_map_to_image_empty_colormap:
  "segmentation_map_to_image cv \<lparr>shape = [1, 1], data = [0]\<rparr> [] remove_holes = Inl IndexError"
  by (simp add: segmentation_map_to_image_def prepare_result_def unique_def bind_err_def)

text \<open>
  C8: a result of shape \<open>(1, 2)\<close> with two distinct values and a colormap of two rows
  meets neither condition of the \<open>ValueError\<close>: it is two-dimensional and has no more
  distinct values than the colormap has rows.  The function does not return: the array
  is squeezed to one axis, and reading its second axis raises \<open>IndexError\<close>, whatever
  the contour library and whatever \<open>remove_holes\<close>.
\<close>

theorem segmentation_map_to_image_single_row:
  "length (shape \<lparr>shape = [1, 2], data = [0, 1 :: int]\<rparr>) = 2
   \<and> length (unique (data \<lparr>shape = [1, 2], data = [0, 1 :: int]\<rparr>)) \<le> length [[0, 0, 0], [255, 255, 255 :: int]]
   \<and> segmentation_map_to_image cv \<lparr>shape = [1, 2], data = [0, 1]\<rparr> [[0, 0, 0], [255, 255, 255]] remove_holes
       = Inl IndexError"
  by (simp add: segmentation_map_to_image_def prepare_result_def blank_mask_def bind_err_def
      unique_def astype_uint8_def squeeze0_def)

subsection \<open>Files\<close>

text \<open>
  \<^verbatim>\<open>download_file\<close> without a file name, branch by branch.
\<close>

lemma download_file_None:
  "download_file pf url None directory show_progress s =
     (case urlopen pf url of
        Inl e \<Rightarrow> Inl (except_HTTPError e)
      | Inr urlobject \<Rightarrow>
          if length (parts pf (Path pf (response_filename pf url urlobject))) > 1 then Inl ValueError
          else
            (case with_directory pf directory (opened_state url s) of
               Inl e \<Rightarrow> Inl e
             | Inr s1 \<Rightarrow>
                 (let target = target_path pf directory (response_filename pf url urlobject) in
                  if \<not> exists s1 target \<or> st_size pf s1 target \<noteq> announced_size urlobject
                  then bind_err (urlretrieve_to pf url target s1) (\<lambda>s2. Inr (resolve pf target, s2))
                  else Inr (resolve pf target, s1))))"
proof (cases "urlopen pf url")
  case (Inl e)
  then show ?thesis by (simp add: download_file_def bind_err_def Let_def)
next
  case opened: (Inr urlobject)
  show ?thesis
  proof (cases directory)
    case None
    with opened show ?thesis
      by (simp add: download_file_def bind_err_def Let_def opened_state_def with_directory_def
          target_path_def announced_size_def)
  next
    case (Some d)
    show ?thesis
    proof (cases "mkdir pf (Path pf d) (opened_state url s)")
      case (Inl e)
      with opened Some show ?thesis
        by (simp add: download_file_def bind_err_def Let_def opened_state_def with_directory_def)
    next
      case (Inr s1)
      with opened Some show ?thesis
        by (simp add: download_file_def bind_err_def Let_def opened_state_def with_directory_def
            target_path_def announced_size_def)
    qed
  qed
qed

text \<open>
  With a file name, no branch returns: the name is rejected, the directory cannot be
  created, or \<open>urlobject\<close> is read unbound.
\<close>

lemma download_file_Some:
  "download_file pf url (Some name) directory show_progress s =
     (if length (parts pf (Path pf name)) > 1 then Inl ValueError
      else case with_directory pf directory s of
             Inl e \<Rightarrow> Inl e
           | Inr s1 \<Rightarrow> Inl UnboundLocalError)"
proof (cases directory)
  case None
  then show ?thesis by (simp add: download_file_def bind_err_def Let_def with_directory_def)
next
  case (Some d)
  then show ?thesis
    by (cases "mkdir pf (Path pf d) s")
       (simp_all add: download_file_def bind_err_def Let_def with_directory_def)
qed

lemma download_file_with_filename_raises:
  "download_file pf url (Some name) directory show_progress s \<noteq> Inr r"
  by (simp add: download_file_Some split: sum.splits)

lemma with_directory_kept:
  assumes "with_directory pf directory s0 = Inr s1"
  shows "opener_headers s1 = opener_headers s0" and "requests s1 = requests s0"
    and "exists s0 p \<Longrightarrow> exists s1 p"
    and "is_regular (files s1 p) \<Longrightarrow> files s1 p = files s0 p"
  using assms
  by (auto simp: with_directory_def mkdir_def exists_def split: option.splits if_splits)

text \<open>
  C2: the file \<open>f.bin\<close> exists and has the three bytes that the response for the url
  announces.  Called with the file name \<open>f.bin\<close>, \<^verbatim>\<open>download_file\<close> does not return the
  path of the file: it raises \<open>UnboundLocalError\<close>.
\<close>

theorem download_file_unbound_urlobject:
  "exists \<lparr>files = [[''f.bin''] \<mapsto> RegularFile ''abc''], opener_headers = [], requests = []\<rparr> [''f.bin'']
   \<and> st_size (demo_platform [(''http://h/d/f.bin'', \<lparr>get_filename = None, Content_Length = Some 3\<rparr>, ''abc'')])
        \<lparr>files = [[''f.bin''] \<mapsto> RegularFile ''abc''], opener_headers = [], requests = []\<rparr> [''f.bin''] = 3
   \<and> download_file
       (demo_platform [(''http://h/d/f.bin'', \<lparr>get_filename = None, Content_Length = Some 3\<rparr>, ''abc'')])
       ''http://h/d/f.bin'' (Some ''f.bin'') None True
       \<lparr>files = [[''f.bin''] \<mapsto> RegularFile ''abc''], opener_headers = [], requests = []\<rparr>
     = Inl UnboundLocalError"
proof -
  let ?pf = "demo_platform [(''http://h/d/f.bin'', \<lparr>get_filename = None, Content_Length = Some 3\<rparr>, ''abc'')]"
  have name: "parts ?pf (Path ?pf ''f.bin'') = [''f.bin'']"
    by (simp add: demo_platform_def)
  show ?thesis
    by (simp add: download_file_Some name with_directory_def exists_def st_size_def)
qed

theorem download_file_unbound_urlobject_witness:
  "download_file
       (demo_platform [(''http://h/d/f.bin'', \<lparr>get_filename = None, Content_Length = Some 3\<rparr>, ''abc'')])
       ''http://h/d/f.bin'' (Some ''f.bin'') None True
       \<lparr>files = [[''f.bin''] \<mapsto> RegularFile ''abc''], opener_headers = [], requests = []\<rparr>
     \<noteq> Inr ([''/'', ''work'', ''f.bin''],
              \<lparr>files = [[''f.bin''] \<mapsto> RegularFile ''abc''], opener_headers = [], requests = []\<rparr>)"
  using download_file_unbound_urlobject by simp



text \<open>
  The other branch, for a call without a file name: a target that exists with the
  announced size is kept.  No request beyond the one for the headers is sent, the file
  system is the one left by the creation of the directory, and the resolved path of the
  target is returned.
\<close>

lemma download_file_already_exists:
  assumes opened: "urlopen pf url = Inr urlobject"
    and single: "length (parts pf (Path pf (response_filename pf url urlobject))) \<le> 1"
    and dir: "with_directory pf directory (opened_state url s) = Inr s1"
    and target: "target = target_path pf directory (response_filename pf url urlobject)"
    and fresh: "exists s1 target \<and> st_size pf s1 target = announced_size urlobject"
  shows "download_file pf url None directory show_progress s = Inr (resolve pf target, s1)"
    and "requests s1 = requests s @ [\<lparr>req_url = url, req_headers = [(''User-agent'', ''Mozilla/5.0'')]\<rparr>]"
    and "is_regular (files s1 p) \<Longrightarrow> files s1 p = files s p"
proof -
  show "download_file pf url None directory show_progress s = Inr (resolve pf target, s1)"
    using opened single dir target fresh by (simp add: download_file_None Let_def)
  show "requests s1 = requests s @ [\<lparr>req_url = url, req_headers = [(''User-agent'', ''Mozilla/5.0'')]\<rparr>]"
    using with_directory_kept(2) [OF dir] by (simp add: opened_state_def)
  show "files s1 p = files s p" if "is_regular (files s1 p)"
    using with_directory_kept(4) [OF dir that] by (simp add: opened_state_def)
qed










end
